theory Spec2Isabelle
  imports Main "HOL-Library.Sublist"
begin

section \<open>The static build orchestrator of \<^verbatim>\<open>core-server/build-static.ts\<close>\<close>

text \<open>
  \<^verbatim>\<open>buildStaticStandalone\<close> is one asynchronous function. It mutates the request object
  it is given, clears the output directory, loads the configuration twice, builds the
  manager, starts a set of concurrent tasks, joins them with the preview build and at
  last starts the telemetry task.

  The model is a function from an environment and a world to a result and a world.
  The environment fixes what every collaborator answers (it is an argument of every
  theorem, so a theorem holds whatever the collaborators do); the world holds the request
  object, the file system, \<^verbatim>\<open>process.exitCode\<close> and the events of the run in the
  order in which they happen.
\<close>

subsection \<open>Paths\<close>

text \<open>
  \<^verbatim>\<open>resolve\<close> of \<^verbatim>\<open>node:path\<close>, on POSIX, with one argument: a relative
  path is put behind the working directory, an empty one stands for the working
  directory, and the segments are normalised from left to right (empty segments and
  \<^verbatim>\<open>.\<close> dropped, \<^verbatim>\<open>..\<close> removing the segment before it, or nothing at the root).
\<close>

fun split_on :: "char \<Rightarrow> string \<Rightarrow> string list" where
  "split_on c [] = [[]]"
| "split_on c (x # xs) =
     (if x = c then [] # split_on c xs
      else (case split_on c xs of
              [] \<Rightarrow> [[x]]
            | s # ss \<Rightarrow> (x # s) # ss))"

fun normalizeString :: "string list \<Rightarrow> string list \<Rightarrow> string list" where
  "normalizeString acc [] = rev acc"
| "normalizeString acc (s # ss) =
     (if s = [] \<or> s = ''.'' then normalizeString acc ss
      else if s = ''..'' then normalizeString (tl acc) ss
      else normalizeString (s # acc) ss)"

fun join_segments :: "string list \<Rightarrow> string" where
  "join_segments [] = []"
| "join_segments [s] = s"
| "join_segments (s # t # ss) = s @ ''/'' @ join_segments (t # ss)"

definition resolve :: "string \<Rightarrow> string \<Rightarrow> string" where
  "resolve wd p =
     (let full = (if p = [] then wd
                  else if hd p = CHR ''/'' then p
                  else wd @ ''/'' @ p)
      in ''/'' @ join_segments (normalizeString [] (split_on CHR ''/'' full)))"

subsection \<open>The file system\<close>

text \<open>
  A file system is a list of nodes, each under its absolute path, a list of names from
  the root. The three calls of \<^verbatim>\<open>node:fs/promises\<close> that the orchestrator makes are
  modelled as Node documents them: \<^verbatim>\<open>readdir\<close> rejects with ENOTDIR on a file and on
  a path that leads through a file, and with ENOENT on any other path that does not exist;
  \<^verbatim>\<open>rm\<close> with \<^verbatim>\<open>recursive\<close> and
  \<^verbatim>\<open>force\<close> removes the node and everything below it and accepts a missing path;
  \<^verbatim>\<open>mkdir\<close> with \<^verbatim>\<open>recursive\<close> creates the directory and its missing ancestors
  and accepts an existing directory.
\<close>

datatype error =
    Error string
  | ENOENT string
  | ENOTDIR string
  | EEXIST string
  | Rejected string

datatype node = File | Dir

type_synonym filesystem = "(string list \<times> node) list"

definition parts :: "string \<Rightarrow> string list" where
  "parts p = filter (\<lambda>s. s \<noteq> []) (split_on CHR ''/'' p)"

definition entries :: "filesystem \<Rightarrow> string list \<Rightarrow> string list" where
  "entries fs p = map (\<lambda>(q, n). last q) (filter (\<lambda>(q, n). q \<noteq> [] \<and> butlast q = p) fs)"

definition through_file :: "filesystem \<Rightarrow> string \<Rightarrow> bool" where
  "through_file fs p = list_ex (\<lambda>q. map_of fs q = Some File) (prefixes (parts p))"

definition readdir :: "filesystem \<Rightarrow> string \<Rightarrow> error + string list" where
  "readdir fs p =
     (if through_file fs p then Inl (ENOTDIR p)
      else (case map_of fs (parts p) of
              None \<Rightarrow> Inl (ENOENT p)
            | Some File \<Rightarrow> Inl (ENOTDIR p)
            | Some Dir \<Rightarrow> Inr (entries fs (parts p))))"

definition rm :: "filesystem \<Rightarrow> string \<Rightarrow> filesystem" where
  "rm fs p = filter (\<lambda>(q, n). \<not> prefix (parts p) q) fs"

definition mkdir :: "filesystem \<Rightarrow> string \<Rightarrow> error + filesystem" where
  "mkdir fs p =
     (if through_file fs p then Inl (EEXIST p)
      else Inr (fs @ map (\<lambda>q. (q, Dir))
                        (filter (\<lambda>q. map_of fs q = None) (prefixes (parts p)))))"

subsection \<open>The request\<close>

text \<open>
  \<^verbatim>\<open>BuildStaticStandaloneOptions\<close>: the fields the orchestrator reads or writes. The
  record is extensible, so every other field of the request is part of a value of this
  type too. An optional flag that is absent counts as false, which is how the source
  tests it. A stats option is a flag or a path.
\<close>

datatype config_type = DEVELOPMENT | PRODUCTION

datatype stats_option = StatsUndefined | StatsFlag bool | StatsPath string

record options =
  configType :: "config_type option"
  outputDir :: string
  configDir :: string
  ignorePreview :: bool
  debugWebpack :: bool
  webpackStatsJson :: stats_option
  statsJson :: stats_option

fun truthy_stats :: "stats_option \<Rightarrow> bool" where
  "truthy_stats StatsUndefined = False"
| "truthy_stats (StatsFlag b) = b"
| "truthy_stats (StatsPath s) = (s \<noteq> [])"

definition stats_or :: "stats_option \<Rightarrow> stats_option \<Rightarrow> stats_option" where
  "stats_or a b = (if truthy_stats a then a else b)"

text \<open>\<^verbatim>\<open>statsOption === true ? options.outputDir : statsOption\<close>, for a truthy option.\<close>

definition stats_target :: "string \<Rightarrow> stats_option \<Rightarrow> string" where
  "stats_target out so =
     (if so = StatsFlag True then out
      else (case so of StatsPath s \<Rightarrow> s | _ \<Rightarrow> out))"

subsection \<open>Configuration values\<close>

text \<open>
  The \<^verbatim>\<open>framework\<close> field of the main configuration is a name or an object with a
  name, or absent. Of the \<^verbatim>\<open>core\<close> section the orchestrator reads the renderer and
  two flags; of a builder, the presets it contributes. The six sections applied after
  the second load are read only for \<^verbatim>\<open>core\<close> and \<^verbatim>\<open>staticDirs\<close>; the other
  four are handed on unread.
\<close>

datatype framework = FrameworkName string | FrameworkObject string

record core_config =
  renderer :: "string option"
  disableTelemetry :: bool
  disableProjectJson :: bool

record builder =
  corePresets :: "string list option"
  overridePresets :: "string list option"

record sections =
  core :: "core_config option"
  staticDirs :: "string list option"

definition frameworkName :: "framework option \<Rightarrow> string option" where
  "frameworkName fw =
     (case fw of
        None \<Rightarrow> None
      | Some (FrameworkName s) \<Rightarrow> Some s
      | Some (FrameworkObject s) \<Rightarrow> Some s)"

text \<open>A string is truthy when it is defined and not empty; an array when it is defined.\<close>

definition truthy_string :: "string option \<Rightarrow> bool" where
  "truthy_string s = (case s of None \<Rightarrow> False | Some x \<Rightarrow> x \<noteq> [])"

definition truthy_array :: "'a list option \<Rightarrow> bool" where
  "truthy_array a = (case a of None \<Rightarrow> False | Some xs \<Rightarrow> True)"

definition or_empty :: "'a list option \<Rightarrow> 'a list" where
  "or_empty a = (case a of None \<Rightarrow> [] | Some xs \<Rightarrow> xs)"

text \<open>\<^verbatim>\<open>core?.disableTelemetry\<close> and \<^verbatim>\<open>core?.disableProjectJson\<close>.\<close>

definition telemetry_disabled :: "core_config option \<Rightarrow> bool" where
  "telemetry_disabled c = (case c of None \<Rightarrow> False | Some cc \<Rightarrow> disableTelemetry cc)"

definition project_json_disabled :: "core_config option \<Rightarrow> bool" where
  "project_json_disabled c = (case c of None \<Rightarrow> False | Some cc \<Rightarrow> disableProjectJson cc)"

subsection \<open>Tasks and events\<close>

text \<open>
  A task is a promise pushed onto \<^verbatim>\<open>effects\<close>; it starts when it is pushed. The
  members of the join are the preview chain (the build, the export of its stats and the
  failure handler) and the tasks pushed so far. An event is a call the orchestrator
  makes or a write to the process state. A collaborator that is awaited on the spot is one
  event: nothing else of the run happens between its start and its end.
\<close>

datatype pass = Pass1 | Pass2

datatype task =
    StaticCopy "string list" string string
  | AssetCopy string string
  | IndexExport string
  | MetadataExport string string
  | Telemetry

datatype member = PreviewChain | Effect task

datatype event =
    LogInfo string
  | LogWarn string
  | LogError string
  | LogTrace string
  | LogConfig string
  | Readdir string
  | Rm string
  | Mkdir string
  | LoadMainConfig
  | LoadAllPresets pass "string list" "string list"
  | Apply string
  | GetBuilders
  | ApplyAll "string list"
  | SetGlobalFeatures
  | ManagerBuild
  | Queue task
  | InitializeGenerator
  | PreviewGetConfig
  | PreviewBuild
  | Join "member list"
  | OutputStats string
  | SetExitCode nat
  | TelemetrySubmit string "string option" string

subsection \<open>The environment and the world\<close>

text \<open>
  What the collaborators answer. A promise is taken to settle: it resolves, or it rejects
  with an error. \<^verbatim>\<open>settle_time\<close> says when the work of each member of the join
  settles, which decides the rejection that \<^verbatim>\<open>Promise.all\<close> reports. \<^verbatim>\<open>fs_fault\<close> is a failure
  of a file-system call that the model of the file system does not explain (a permission,
  a busy device).
\<close>

record env =
  cwd :: string
  relative_path :: "string \<Rightarrow> string \<Rightarrow> string"
  join_path :: "string \<Rightarrow> string \<Rightarrow> string"
  dirname_path :: "string \<Rightarrow> string"
  require_resolve :: "string \<Rightarrow> string"
  fs_fault :: "event \<Rightarrow> error option"
  loadMainConfig :: "error + framework option"
  loadAllPresets :: "pass \<Rightarrow> error option"
  apply_core :: "error + core_config"
  apply_build :: "error option"
  getBuilders :: "error + builder \<times> builder"
  resolveAddonName :: "string \<Rightarrow> string \<Rightarrow> string option"
  apply_all :: "error + sections"
  managerBuilder_build :: "error option"
  normalizeStories :: "error option"
  previewBuilder_getConfig :: "error option"
  previewBuilder_build :: "error option"
  outputStats :: "error option"
  task_result :: "task \<Rightarrow> error option"
  settle_time :: "member \<Rightarrow> nat"
  generator_initialize :: "error option"
  generator_getIndex :: "error + string"
  summarizeIndex :: "string \<Rightarrow> string"
  getPrecedingUpgrade :: "error + string"
  telemetry :: "error option"

record 'a world =
  options :: "'a options_scheme"
  fs :: filesystem
  exitCode :: "nat option"
  trace :: "event list"

subsection \<open>The output guard (lines 34 to 52)\<close>

text \<open>
  A file-system call fails with the fault the environment gives for it, if any, and
  otherwise does what the file system says.
\<close>

definition fs_readdir :: "env \<Rightarrow> filesystem \<Rightarrow> string \<Rightarrow> error + string list" where
  "fs_readdir env f p =
     (case fs_fault env (Readdir p) of Some e \<Rightarrow> Inl e | None \<Rightarrow> readdir f p)"

definition fs_rm :: "env \<Rightarrow> filesystem \<Rightarrow> string \<Rightarrow> error + filesystem" where
  "fs_rm env f p =
     (case fs_fault env (Rm p) of Some e \<Rightarrow> Inl e | None \<Rightarrow> Inr (rm f p))"

definition fs_mkdir :: "env \<Rightarrow> filesystem \<Rightarrow> string \<Rightarrow> error + filesystem" where
  "fs_mkdir env f p =
     (case fs_fault env (Mkdir p) of Some e \<Rightarrow> Inl e | None \<Rightarrow> mkdir f p)"

definition log :: "event \<Rightarrow> 'a world \<Rightarrow> 'a world" where
  "log ev w = w\<lparr>trace := trace w @ [ev]\<rparr>"

definition output_guard :: "env \<Rightarrow> 'a world \<Rightarrow> (error + unit) \<times> 'a world" where
  "output_guard env w =
     (let w1 = w\<lparr>options := (options w)\<lparr>configType := Some PRODUCTION\<rparr>\<rparr>
      in if outputDir (options w1) = []
         then (Inl (Error ''Won't remove current directory. Check your outputDir!''), w1)
         else
           let w2 = w1\<lparr>options :=
                         (options w1)\<lparr>outputDir := resolve (cwd env) (outputDir (options w1))\<rparr>\<rparr>;
               w3 = w2\<lparr>options :=
                         (options w2)\<lparr>configDir := resolve (cwd env) (configDir (options w2))\<rparr>\<rparr>;
               out = outputDir (options w3);
               w4 = log (LogInfo (''=> Cleaning outputDir: '' @ relative_path env (cwd env) out)) w3
           in if out = ''/''
              then (Inl (Error ''Won't remove directory '/'. Check your outputDir!''), w4)
              else
                let w5 = log (Readdir out) w4
                in case fs_readdir env (fs w5) out of
                     Inl e \<Rightarrow> (Inl e, w5)
                   | Inr outputDirFiles \<Rightarrow>
                       if length outputDirFiles > 0
                       then
                         let w6 = log (Rm out) w5
                         in case fs_rm env (fs w6) out of
                              Inl e \<Rightarrow> (Inl e, w6)
                            | Inr f \<Rightarrow>
                                let w7 = log (Mkdir out) (w6\<lparr>fs := f\<rparr>)
                                in case fs_mkdir env (fs w7) out of
                                     Inl e \<Rightarrow> (Inl e, w7)
                                   | Inr f' \<Rightarrow> (Inr (), w7\<lparr>fs := f'\<rparr>)
                       else (Inr (), w5))"

subsection \<open>Sequencing\<close>

text \<open>
  After the guard the orchestrator writes nothing but \<^verbatim>\<open>process.exitCode\<close>, and a
  phase is the events it adds and its result. \<^verbatim>\<open>andThen\<close> is an \<^verbatim>\<open>await\<close>
  followed by the rest of the function: a rejection ends the run there.
\<close>

type_synonym 'a step = "(error + 'a) \<times> event list"

definition andThen :: "'a step \<Rightarrow> ('a \<Rightarrow> 'b step) \<Rightarrow> 'b step" where
  "andThen m f =
     (case m of
        (Inl e, t) \<Rightarrow> (Inl e, t)
      | (Inr x, t) \<Rightarrow> (case f x of (r, t') \<Rightarrow> (r, t @ t')))"

definition await :: "event \<Rightarrow> error + 'a \<Rightarrow> 'a step" where
  "await ev r = (r, [ev])"

definition emit :: "event list \<Rightarrow> unit step" where
  "emit evs = (Inr (), evs)"

definition settled :: "error option \<Rightarrow> error + unit" where
  "settled r = (case r of None \<Rightarrow> Inr () | Some e \<Rightarrow> Inl e)"

subsection \<open>Loading the configuration (lines 54 to 108)\<close>

definition common_preset :: string where
  "common_preset = ''@storybook/core/core-server/presets/common-preset''"

definition common_override_preset :: string where
  "common_override_preset = ''@storybook/core/core-server/presets/common-override-preset''"

definition load_configuration :: "env \<Rightarrow> 'a options_scheme \<Rightarrow> sections step" where
  "load_configuration env opts =
     andThen (await LoadMainConfig (loadMainConfig env)) (\<lambda>framework.
       let name = frameworkName framework;
           presets = (if truthy_string name then [join_path env (the name) ''preset''] else [])
       in
       andThen (emit ((if \<not> truthy_string name \<and> \<not> ignorePreview opts
                       then [LogWarn (''you have not specified a framework in your ''
                                      @ configDir opts @ ''/main.js'')]
                       else [])
                      @ [LogInfo ''=> Loading presets''])) (\<lambda>_.
       andThen (await (LoadAllPresets Pass1
                         ([require_resolve env common_preset] @ presets)
                         [require_resolve env common_override_preset])
                      (settled (loadAllPresets env Pass1))) (\<lambda>_.
       andThen (await (Apply ''core'') (apply_core env)) (\<lambda>core1.
       andThen (await (Apply ''build'') (settled (apply_build env))) (\<lambda>_.
       andThen (await GetBuilders (getBuilders env)) (\<lambda>(previewBuilder, managerBuilder).
       let resolvedRenderer =
             (if truthy_string (renderer core1)
              then resolveAddonName env (configDir opts) (the (renderer core1))
              else None)
       in
       andThen (await (LoadAllPresets Pass2
                         ([require_resolve env common_preset]
                          @ or_empty (corePresets managerBuilder)
                          @ or_empty (corePresets previewBuilder)
                          @ (case resolvedRenderer of Some r \<Rightarrow> [r] | None \<Rightarrow> [])
                          @ presets)
                         (or_empty (overridePresets previewBuilder)
                          @ [require_resolve env common_override_preset]))
                      (settled (loadAllPresets env Pass2))) (\<lambda>_.
       await (ApplyAll [''features'', ''core'', ''staticDirs'', ''experimental_indexers'',
                        ''stories'', ''docs''])
             (apply_all env))))))))"

subsection \<open>The manager build (lines 117 to 123)\<close>

text \<open>
  Modelled from the spec: \<^verbatim>\<open>buildOrThrow\<close> of \<^verbatim>\<open>utils/build-or-throw\<close> is not among
  the sources. Section 4.3 of the specification describes it as the wrapper with which the
  shell builder is awaited, fatal on a throw: any error of the build aborts the whole
  orchestration at once. So it rejects with the error of its callback and resolves when
  the callback does.
\<close>

definition buildOrThrow :: "error + 'a \<Rightarrow> error + 'a" where
  "buildOrThrow callback = (case callback of Inl e \<Rightarrow> Inl e | Inr v \<Rightarrow> Inr v)"

definition build_manager :: "env \<Rightarrow> unit step" where
  "build_manager env =
     andThen (emit [SetGlobalFeatures]) (\<lambda>_.
       await ManagerBuild (buildOrThrow (settled (managerBuilder_build env))))"

subsection \<open>Queueing the side effects (lines 125 to 178)\<close>

definition queue_effects :: "env \<Rightarrow> 'a options_scheme \<Rightarrow> sections \<Rightarrow> task list step" where
  "queue_effects env opts secs =
     (let effects1 = (if truthy_array (staticDirs secs)
                      then [StaticCopy (the (staticDirs secs)) (outputDir opts) (configDir opts)]
                      else []);
          coreServerPublicDir =
            join_path env (dirname_path env (require_resolve env ''@storybook/core/package.json''))
                      ''assets/browser'';
          effects2 = effects1 @ [AssetCopy coreServerPublicDir (outputDir opts)]
      in
      andThen (emit (map Queue effects2)) (\<lambda>_.
      andThen (if \<not> ignorePreview opts
               then andThen (settled (normalizeStories env), []) (\<lambda>_.
                      let t = IndexExport (join_path env (outputDir opts) ''index.json'')
                      in (Inr (effects2 @ [t]), [InitializeGenerator, Queue t]))
               else (Inr effects2, [])) (\<lambda>effects3.
      andThen (if \<not> project_json_disabled (core secs)
               then
                 let t = MetadataExport (join_path env (outputDir opts) ''project.json'')
                                        (configDir opts)
                 in (Inr (effects3 @ [t]), [Queue t])
               else (Inr effects3, [])) (\<lambda>effects4.
      andThen (if debugWebpack opts
               then andThen (await PreviewGetConfig (settled (previewBuilder_getConfig env)))
                      (\<lambda>_. emit [LogConfig ''Preview webpack config''])
               else emit []) (\<lambda>_.
      andThen (emit [LogInfo (if ignorePreview opts then ''=> Not building preview''
                              else ''=> Building preview..'')]) (\<lambda>_.
      (Inr effects4, [])))))))"

subsection \<open>The join (lines 180 to 206)\<close>

text \<open>
  The preview chain is the build, then on success the trace line and the export of the
  stats when a stats option is set, and the handler for a rejection of either, which logs,
  sets the exit code and rejects again.
\<close>

definition preview_failed :: "event list" where
  "preview_failed = [LogError ''=> Failed to build the preview'', SetExitCode 1]"

definition preview_chain :: "env \<Rightarrow> 'a options_scheme \<Rightarrow> error option \<times> event list" where
  "preview_chain env opts =
     (case previewBuilder_build env of
        Some e \<Rightarrow> (Some e, preview_failed)
      | None \<Rightarrow>
          let statsOption = stats_or (webpackStatsJson opts) (statsJson opts)
          in if truthy_stats statsOption
             then
               let target = stats_target (outputDir opts) statsOption
               in (case outputStats env of
                     Some e \<Rightarrow>
                       (Some e, [LogTrace ''=> Preview built'', OutputStats target] @ preview_failed)
                   | None \<Rightarrow> (None, [LogTrace ''=> Preview built'', OutputStats target]))
             else (None, [LogTrace ''=> Preview built'']))"

text \<open>
  \<^verbatim>\<open>Promise.all\<close> resolves when every member has resolved and rejects with the
  rejection that comes first in time; of two at the same time, the one of the member that
  stands first. \<^verbatim>\<open>settle_time\<close> is the time at which the work of a member settles: a
  task, or for the preview chain the build (the export of the stats, when the build has
  resolved). The rejection of the chain reaches the join only turns later, through its
  \<^verbatim>\<open>then\<close> and its \<^verbatim>\<open>catch\<close>, so a task that has rejected by the time the work of
  the chain does is seen first. The other members are not cancelled: the preview chain runs to its end
  also when a task has rejected before it, so the events of the chain are part of the
  run whatever the join reports. What the tasks themselves write is theirs and not an
  event of the orchestrator.
\<close>

fun first_rejection ::
  "('m \<Rightarrow> nat) \<Rightarrow> ('m \<Rightarrow> error option) \<Rightarrow> 'm list \<Rightarrow> (nat \<times> error) option" where
  "first_rejection time res [] = None"
| "first_rejection time res (m # ms) =
     (case res m of
        None \<Rightarrow> first_rejection time res ms
      | Some e \<Rightarrow>
          (case first_rejection time res ms of
             None \<Rightarrow> Some (time m, e)
           | Some (t, e') \<Rightarrow> if time m \<le> t then Some (time m, e) else Some (t, e')))"

definition promise_all :: "('m \<Rightarrow> nat) \<Rightarrow> ('m \<Rightarrow> error option) \<Rightarrow> 'm list \<Rightarrow> error + unit" where
  "promise_all time res ms =
     (case first_rejection time res ms of None \<Rightarrow> Inr () | Some (t, e) \<Rightarrow> Inl e)"

definition member_result :: "env \<Rightarrow> error option \<Rightarrow> member \<Rightarrow> error option" where
  "member_result env chain m = (case m of PreviewChain \<Rightarrow> chain | Effect t \<Rightarrow> task_result env t)"

definition rejection_time :: "env \<Rightarrow> member \<Rightarrow> nat" where
  "rejection_time env m =
     (case m of
        PreviewChain \<Rightarrow> 2 * settle_time env PreviewChain + 1
      | Effect t \<Rightarrow> 2 * settle_time env (Effect t))"

definition join_all :: "env \<Rightarrow> 'a options_scheme \<Rightarrow> task list \<Rightarrow> unit step" where
  "join_all env opts effects =
     (let chain = preview_chain env opts;
          members = (if ignorePreview opts then [] else [PreviewChain]) @ map Effect effects
      in (promise_all (rejection_time env) (member_result env (fst chain)) members,
          (if ignorePreview opts then [] else [PreviewBuild])
          @ [Join members]
          @ (if ignorePreview opts then [] else snd chain)))"

subsection \<open>Telemetry and the end (lines 208 to 226)\<close>

text \<open>
  The telemetry task waits for the index generator, reads the index (there is none when
  the preview is skipped), asks for the preceding upgrade and submits the event. It is
  the callback of a \<^verbatim>\<open>then\<close>, so it starts only once the code that created it has run
  to its end: its events come after the last line of the function.
\<close>

definition telemetry_task :: "env \<Rightarrow> 'a options_scheme \<Rightarrow> error option \<times> event list" where
  "telemetry_task env opts =
     (if \<not> ignorePreview opts \<and> generator_initialize env \<noteq> None
      then (generator_initialize env, [])
      else
        case (if ignorePreview opts then Inr None
              else (case generator_getIndex env of Inl e \<Rightarrow> Inl e | Inr i \<Rightarrow> Inr (Some i))) of
          Inl e \<Rightarrow> (Some e, [])
        | Inr storyIndex \<Rightarrow>
            (case getPrecedingUpgrade env of
               Inl e \<Rightarrow> (Some e, [])
             | Inr precedingUpgrade \<Rightarrow>
                 (telemetry env,
                  [TelemetrySubmit precedingUpgrade
                     (map_option (summarizeIndex env) storyIndex) (configDir opts)])))"

definition finish :: "env \<Rightarrow> 'a options_scheme \<Rightarrow> sections \<Rightarrow> unit step" where
  "finish env opts secs =
     (let queued = \<not> telemetry_disabled (core secs)
      in (Inr (),
          (if queued then [Queue Telemetry] else [])
          @ [LogInfo (''=> Output directory: '' @ outputDir opts)]
          @ (if queued then snd (telemetry_task env opts) else [])))"

subsection \<open>The orchestrator\<close>

definition build :: "env \<Rightarrow> 'a options_scheme \<Rightarrow> unit step" where
  "build env opts =
     andThen (load_configuration env opts) (\<lambda>secs.
     andThen (build_manager env) (\<lambda>_.
     andThen (queue_effects env opts secs) (\<lambda>effects.
     andThen (join_all env opts effects) (\<lambda>_.
     finish env opts secs))))"

text \<open>\<^verbatim>\<open>process.exitCode\<close> after the events of a run: the last value written.\<close>

fun write_exitCode :: "nat option \<Rightarrow> event \<Rightarrow> nat option" where
  "write_exitCode c (SetExitCode n) = Some n"
| "write_exitCode c _ = c"

definition buildStaticStandalone :: "env \<Rightarrow> 'a world \<Rightarrow> (error + unit) \<times> 'a world" where
  "buildStaticStandalone env w =
     (case output_guard env w of
        (Inl e, w') \<Rightarrow> (Inl e, w')
      | (Inr _, w') \<Rightarrow>
          (case build env (options w') of
             (r, evs) \<Rightarrow>
               (r, w'\<lparr>trace := trace w' @ evs,
                      exitCode := foldl write_exitCode (exitCode w') evs\<rparr>)))"

subsection \<open>Reading a run\<close>

text \<open>The events that a call adds to the trace of the world it starts in.\<close>

definition events :: "env \<Rightarrow> 'a world \<Rightarrow> event list" where
  "events env w = drop (length (trace w)) (trace (snd (buildStaticStandalone env w)))"

text \<open>
  \<^verbatim>\<open>precedes P Q\<close>: no event with \<^verbatim>\<open>Q\<close> happens unless an event with \<^verbatim>\<open>P\<close> has
  happened strictly before it.
\<close>

fun precedes :: "('e \<Rightarrow> bool) \<Rightarrow> ('e \<Rightarrow> bool) \<Rightarrow> 'e list \<Rightarrow> bool" where
  "precedes P Q [] = True"
| "precedes P Q (x # xs) = (if Q x then False else if P x then True else precedes P Q xs)"

fun is_fs_event :: "event \<Rightarrow> bool" where
  "is_fs_event (Readdir p) = True"
| "is_fs_event (Rm p) = True"
| "is_fs_event (Mkdir p) = True"
| "is_fs_event _ = False"

fun is_readdir :: "event \<Rightarrow> bool" where
  "is_readdir (Readdir p) = True"
| "is_readdir _ = False"

fun is_rm :: "event \<Rightarrow> bool" where
  "is_rm (Rm p) = True"
| "is_rm _ = False"

fun is_mkdir :: "event \<Rightarrow> bool" where
  "is_mkdir (Mkdir p) = True"
| "is_mkdir _ = False"

fun is_pass2 :: "event \<Rightarrow> bool" where
  "is_pass2 (LoadAllPresets Pass2 cs os) = True"
| "is_pass2 _ = False"

fun is_manager_build :: "event \<Rightarrow> bool" where
  "is_manager_build ManagerBuild = True"
| "is_manager_build _ = False"

fun is_queue :: "event \<Rightarrow> bool" where
  "is_queue (Queue t) = True"
| "is_queue _ = False"

fun is_static_copy :: "event \<Rightarrow> bool" where
  "is_static_copy (Queue (StaticCopy ds out cfg)) = True"
| "is_static_copy _ = False"

fun is_preview_build :: "event \<Rightarrow> bool" where
  "is_preview_build PreviewBuild = True"
| "is_preview_build _ = False"

fun is_join :: "event \<Rightarrow> bool" where
  "is_join (Join ms) = True"
| "is_join _ = False"

fun is_set_exitCode :: "event \<Rightarrow> bool" where
  "is_set_exitCode (SetExitCode n) = True"
| "is_set_exitCode _ = False"

fun is_queue_telemetry :: "event \<Rightarrow> bool" where
  "is_queue_telemetry (Queue Telemetry) = True"
| "is_queue_telemetry _ = False"

fun is_submit :: "event \<Rightarrow> bool" where
  "is_submit (TelemetrySubmit u i c) = True"
| "is_submit _ = False"

fun is_report :: "event \<Rightarrow> bool" where
  "is_report (LogInfo s) = prefix ''=> Output directory: '' s"
| "is_report _ = False"

text \<open>A task is awaited when it is a member of a join.\<close>

fun joins :: "task \<Rightarrow> event \<Rightarrow> bool" where
  "joins t (Join ms) = (Effect t \<in> set ms)"
| "joins t _ = False"

subsection \<open>A project to run the orchestrator on\<close>

definition demo_env :: env where
  "demo_env =
     \<lparr>cwd = ''/home/me/app'',
      relative_path = (\<lambda>a b. drop (length a + 1) b),
      join_path = (\<lambda>a b. a @ ''/'' @ b),
      dirname_path = (\<lambda>a. ''/home/me/app/node_modules/@storybook/core''),
      require_resolve = (\<lambda>a. ''/home/me/app/node_modules/'' @ a),
      fs_fault = (\<lambda>c. None),
      loadMainConfig = Inr (Some (FrameworkName ''@storybook/react-vite'')),
      loadAllPresets = (\<lambda>p. None),
      apply_core = Inr \<lparr>renderer = Some ''@storybook/react'', disableTelemetry = False,
                        disableProjectJson = False\<rparr>,
      apply_build = None,
      getBuilders = Inr (\<lparr>corePresets = Some [''@storybook/builder-vite/preset''],
                          overridePresets = None\<rparr>,
                        \<lparr>corePresets = None, overridePresets = None\<rparr>),
      resolveAddonName = (\<lambda>dir name. Some (name @ ''/preset'')),
      apply_all = Inr \<lparr>core = Some \<lparr>renderer = Some ''@storybook/react'',
                                     disableTelemetry = False, disableProjectJson = False\<rparr>,
                       staticDirs = Some []\<rparr>,
      managerBuilder_build = None,
      normalizeStories = None,
      previewBuilder_getConfig = None,
      previewBuilder_build = None,
      outputStats = None,
      task_result = (\<lambda>t. None),
      settle_time = (\<lambda>m. 0),
      generator_initialize = None,
      generator_getIndex = Inr ''index'',
      summarizeIndex = (\<lambda>i. ''summary of '' @ i),
      getPrecedingUpgrade = Inr ''none'',
      telemetry = None\<rparr>"

definition demo_options :: options where
  "demo_options =
     \<lparr>configType = None, outputDir = ''storybook-static'', configDir = ''.storybook'',
      ignorePreview = False, debugWebpack = False,
      webpackStatsJson = StatsUndefined, statsJson = StatsUndefined\<rparr>"

text \<open>The project has been built before: the output directory holds a file.\<close>

definition demo_fs :: filesystem where
  "demo_fs =
     [([], Dir), ([''home''], Dir), ([''home'', ''me''], Dir), ([''home'', ''me'', ''app''], Dir),
      ([''home'', ''me'', ''app'', ''storybook-static''], Dir),
      ([''home'', ''me'', ''app'', ''storybook-static'', ''index.html''], File)]"

definition demo_world :: "unit world" where
  "demo_world = \<lparr>options = demo_options, fs = demo_fs, exitCode = None, trace = []\<rparr>"

text \<open>The same project before its first build: there is no output directory yet.\<close>

definition fresh_world :: "unit world" where
  "fresh_world = demo_world\<lparr>fs := take 4 demo_fs\<rparr>"


subsection \<open>The events of each phase\<close>

text \<open>The events that the guard adds, and the kinds of event that each phase can add.\<close>

definition guard_events :: "env \<Rightarrow> 'a world \<Rightarrow> event list" where
  "guard_events env w = drop (length (trace w)) (trace (snd (output_guard env w)))"

fun guard_event :: "event \<Rightarrow> bool" where
  "guard_event (LogInfo s) = prefix ''=> Cleaning outputDir: '' s"
| "guard_event (Readdir p) = True"
| "guard_event (Rm p) = True"
| "guard_event (Mkdir p) = True"
| "guard_event _ = False"

fun config_event :: "event \<Rightarrow> bool" where
  "config_event (LogWarn s) = True"
| "config_event (LogInfo s) = (s = ''=> Loading presets'')"
| "config_event LoadMainConfig = True"
| "config_event (LoadAllPresets p cs os) = True"
| "config_event (Apply s) = True"
| "config_event GetBuilders = True"
| "config_event (ApplyAll ss) = True"
| "config_event _ = False"

fun queue_event :: "event \<Rightarrow> bool" where
  "queue_event (Queue t) = (t \<noteq> Telemetry)"
| "queue_event InitializeGenerator = True"
| "queue_event PreviewGetConfig = True"
| "queue_event (LogConfig s) = True"
| "queue_event (LogInfo s) = (s = ''=> Not building preview'' \<or> s = ''=> Building preview..'')"
| "queue_event _ = False"

fun join_event :: "event \<Rightarrow> bool" where
  "join_event PreviewBuild = True"
| "join_event (Join ms) = True"
| "join_event (LogTrace s) = True"
| "join_event (OutputStats s) = True"
| "join_event (LogError s) = True"
| "join_event (SetExitCode n) = True"
| "join_event _ = False"

fun finish_event :: "event \<Rightarrow> bool" where
  "finish_event (Queue t) = (t = Telemetry)"
| "finish_event (LogInfo s) = prefix ''=> Output directory: '' s"
| "finish_event (TelemetrySubmit u i c) = True"
| "finish_event _ = False"

subsection \<open>Requests that the guard refuses\<close>

definition empty_world :: "unit world" where
  "empty_world = demo_world\<lparr>options := demo_options\<lparr>outputDir := []\<rparr>\<rparr>"

definition root_world :: "unit world" where
  "root_world = demo_world\<lparr>options := demo_options\<lparr>outputDir := ''../../..''\<rparr>\<rparr>"

subsection \<open>Runs in which a collaborator fails or a section is absent\<close>

definition manager_fails_env :: env where
  "manager_fails_env = demo_env\<lparr>managerBuilder_build := Some (Rejected ''manager build failed'')\<rparr>"


definition pass2_fails_env :: env where
  "pass2_fails_env =
     demo_env\<lparr>loadAllPresets := (\<lambda>p. if p = Pass2 then Some (Rejected ''no preset'') else None)\<rparr>"

definition no_static_env :: env where
  "no_static_env = demo_env\<lparr>apply_all := Inr \<lparr>core = None, staticDirs = None\<rparr>\<rparr>"

definition no_telemetry_env :: env where
  "no_telemetry_env =
     demo_env\<lparr>apply_all := Inr \<lparr>core = Some \<lparr>renderer = None, disableTelemetry = True,
                                               disableProjectJson = False\<rparr>,
                                 staticDirs = None\<rparr>\<rparr>"




definition telemetry_fails_env :: env where
  "telemetry_fails_env = demo_env\<lparr>telemetry := Some (Rejected ''offline'')\<rparr>"

section \<open>Lemmas\<close>

subsection \<open>Sequencing and order\<close>

lemma andThen_fst: "fst (andThen m f) = (case fst m of Inl e \<Rightarrow> Inl e | Inr x \<Rightarrow> fst (f x))"
  by (auto simp: andThen_def split: prod.splits sum.splits)

lemma andThen_snd: "snd (andThen m f) = snd m @ (case fst m of Inl e \<Rightarrow> [] | Inr x \<Rightarrow> snd (f x))"
  by (auto simp: andThen_def split: prod.splits sum.splits)

lemma precedes_append:
  "precedes P Q (xs @ ys) =
     (if list_ex Q xs \<or> list_ex P xs then precedes P Q xs else precedes P Q ys)"
  by (induction xs) auto

lemma precedes_none: "\<not> list_ex Q xs \<Longrightarrow> precedes P Q xs"
  by (induction xs) auto

subsection \<open>The file system\<close>







subsection \<open>The guard\<close>

lemma options_guard:
  "options (snd (output_guard env w)) =
     (if outputDir (options w) = [] then (options w)\<lparr>configType := Some PRODUCTION\<rparr>
      else (options w)\<lparr>configType := Some PRODUCTION,
                        outputDir := resolve (cwd env) (outputDir (options w)),
                        configDir := resolve (cwd env) (configDir (options w))\<rparr>)"
  by (auto simp: output_guard_def Let_def log_def split: sum.splits)

subsection \<open>The phases\<close>

lemma load_events: "list_all config_event (snd (load_configuration env opts))"
  by (simp add: load_configuration_def andThen_snd andThen_fst await_def emit_def Let_def
        split: sum.splits prod.splits)

lemma manager_events: "snd (build_manager env) = [SetGlobalFeatures, ManagerBuild]"
  by (simp add: build_manager_def andThen_snd andThen_fst await_def emit_def)

lemma queue_events: "list_all queue_event (snd (queue_effects env opts secs))"
  by (auto simp: queue_effects_def andThen_snd andThen_fst await_def emit_def Let_def
        split: sum.splits prod.splits)

lemma join_events: "list_all join_event (snd (join_all env opts effects))"
  by (simp add: join_all_def preview_chain_def preview_failed_def Let_def
        split: option.splits)

lemma finish_events: "list_all finish_event (snd (finish env opts secs))"
  by (simp add: finish_def telemetry_task_def Let_def split: option.splits sum.splits)

lemma build_snd:
  "snd (build env opts) =
     snd (load_configuration env opts) @
     (case fst (load_configuration env opts) of
        Inl e \<Rightarrow> []
      | Inr secs \<Rightarrow>
          snd (build_manager env) @
          (case fst (build_manager env) of
             Inl e \<Rightarrow> []
           | Inr u \<Rightarrow>
               snd (queue_effects env opts secs) @
               (case fst (queue_effects env opts secs) of
                  Inl e \<Rightarrow> []
                | Inr effects \<Rightarrow>
                    snd (join_all env opts effects) @
                    (case fst (join_all env opts effects) of
                       Inl e \<Rightarrow> []
                     | Inr u \<Rightarrow> snd (finish env opts secs)))))"
  by (simp add: build_def andThen_snd andThen_fst split: sum.splits)

lemma build_fst:
  "fst (build env opts) =
     (case fst (load_configuration env opts) of
        Inl e \<Rightarrow> Inl e
      | Inr secs \<Rightarrow>
          (case fst (build_manager env) of
             Inl e \<Rightarrow> Inl e
           | Inr u \<Rightarrow>
               (case fst (queue_effects env opts secs) of
                  Inl e \<Rightarrow> Inl e
                | Inr effects \<Rightarrow>
                    (case fst (join_all env opts effects) of
                       Inl e \<Rightarrow> Inl e
                     | Inr u \<Rightarrow> fst (finish env opts secs)))))"
  by (simp add: build_def andThen_snd andThen_fst split: sum.splits)

lemma trace_guard: "trace (snd (output_guard env w)) = trace w @ guard_events env w"
  by (auto simp: guard_events_def output_guard_def Let_def log_def split: sum.splits)

lemma events_split:
  "events env w =
     guard_events env w @
     (case fst (output_guard env w) of
        Inl e \<Rightarrow> []
      | Inr u \<Rightarrow> snd (build env (options (snd (output_guard env w)))))"
proof -
  obtain r w' where g: "output_guard env w = (r, w')"
    by fastforce
  have t: "trace w' = trace w @ guard_events env w"
    using trace_guard [of env w] g by simp
  show ?thesis
    by (cases r) (auto simp: events_def buildStaticStandalone_def g t split: prod.splits)
qed

lemma build_no_fs: "\<not> list_ex is_fs_event (snd (build env opts))"
proof -
  have a: "\<not> list_ex is_fs_event xs" if "list_all config_event xs" for xs
    using that by (induction xs) (auto elim: config_event.elims)
  have b: "\<not> list_ex is_fs_event xs" if "list_all queue_event xs" for xs
    using that by (induction xs) (auto elim: queue_event.elims)
  have c: "\<not> list_ex is_fs_event xs" if "list_all join_event xs" for xs
    using that by (induction xs) (auto elim: join_event.elims)
  have d: "\<not> list_ex is_fs_event xs" if "list_all finish_event xs" for xs
    using that by (induction xs) (auto elim: finish_event.elims)
  show ?thesis
    by (simp add: build_snd manager_events a [OF load_events] b [OF queue_events]
          c [OF join_events] d [OF finish_events] split: sum.splits)
qed

lemma guard_events_cases:
  "guard_events env w = [] \<and> outputDir (options w) = []
   \<or> (\<exists>i p. guard_events env w = LogInfo i # take 3 [Readdir p, Rm p, Mkdir p])
   \<or> (\<exists>i p. guard_events env w = LogInfo i # take 2 [Readdir p, Rm p, Mkdir p])
   \<or> (\<exists>i p. guard_events env w = LogInfo i # take 1 [Readdir p, Rm p, Mkdir p])
   \<or> (\<exists>i p. guard_events env w = LogInfo i # take 0 [Readdir p, Rm p, Mkdir p])"
  by (auto simp: guard_events_def output_guard_def Let_def log_def split: sum.splits)

lemma guard_events_all: "list_all guard_event (guard_events env w)"
  by (auto simp: guard_events_def output_guard_def Let_def log_def split: sum.splits)

lemma report_not_cleaning:
  "prefix ''=> Cleaning outputDir: '' s \<Longrightarrow> \<not> prefix ''=> Output directory: '' s"
  by (auto simp: prefix_def)

lemma guard_event_kind:
  "guard_event e \<Longrightarrow>
     \<not> is_pass2 e \<and> \<not> is_manager_build e \<and> \<not> is_queue e \<and> \<not> is_static_copy e
     \<and> \<not> is_preview_build e \<and> \<not> is_join e \<and> \<not> is_set_exitCode e
     \<and> \<not> is_queue_telemetry e \<and> \<not> is_submit e \<and> \<not> is_report e \<and> \<not> joins t e"
  by (cases e) (simp_all add: report_not_cleaning)

lemma config_event_kind:
  "config_event e \<Longrightarrow>
     \<not> is_fs_event e \<and> \<not> is_manager_build e \<and> \<not> is_queue e \<and> \<not> is_static_copy e
     \<and> \<not> is_preview_build e \<and> \<not> is_join e \<and> \<not> is_set_exitCode e
     \<and> \<not> is_queue_telemetry e \<and> \<not> is_submit e \<and> \<not> is_report e \<and> \<not> joins t e"
  by (cases e) simp_all

lemma queue_event_kind:
  "queue_event e \<Longrightarrow>
     \<not> is_fs_event e \<and> \<not> is_manager_build e \<and> \<not> is_pass2 e
     \<and> \<not> is_preview_build e \<and> \<not> is_join e \<and> \<not> is_set_exitCode e
     \<and> \<not> is_queue_telemetry e \<and> \<not> is_submit e \<and> \<not> is_report e \<and> \<not> joins t e"
proof (cases e)
  case (Queue x)
  assume "queue_event e"
  with Queue show ?thesis by (cases x) simp_all
qed auto

lemma join_event_kind:
  "join_event e \<Longrightarrow>
     \<not> is_fs_event e \<and> \<not> is_manager_build e \<and> \<not> is_pass2 e \<and> \<not> is_queue e
     \<and> \<not> is_static_copy e \<and> \<not> is_queue_telemetry e \<and> \<not> is_submit e \<and> \<not> is_report e"
  by (cases e) simp_all

lemma finish_event_kind:
  "finish_event e \<Longrightarrow>
     \<not> is_fs_event e \<and> \<not> is_manager_build e \<and> \<not> is_pass2 e \<and> \<not> is_static_copy e
     \<and> \<not> is_preview_build e \<and> \<not> is_join e \<and> \<not> is_set_exitCode e \<and> \<not> joins t e"
proof (cases e)
  case (Queue x)
  assume "finish_event e"
  with Queue show ?thesis by (cases x) simp_all
qed auto

lemma none_of_kind: "list_all A xs \<Longrightarrow> (\<And>e. A e \<Longrightarrow> \<not> B e) \<Longrightarrow> \<not> list_ex B xs"
  by (induction xs) auto

lemma load_ok:
  "fst (load_configuration env opts) = Inr secs \<Longrightarrow>
     apply_all env = Inr secs \<and> loadAllPresets env Pass2 = None
     \<and> list_ex is_pass2 (snd (load_configuration env opts))"
  by (auto simp: load_configuration_def andThen_snd andThen_fst await_def emit_def Let_def
        settled_def split: sum.splits prod.splits option.splits)

lemma manager_fst:
  "fst (build_manager env) = (case managerBuilder_build env of None \<Rightarrow> Inr () | Some e \<Rightarrow> Inl e)"
  by (simp add: build_manager_def andThen_fst await_def emit_def buildOrThrow_def settled_def
        split: option.splits)

lemma queue_static:
  "list_ex is_static_copy (snd (queue_effects env opts secs)) = (staticDirs secs \<noteq> None)"
  by (auto simp: queue_effects_def andThen_snd andThen_fst await_def emit_def Let_def
        truthy_array_def split: sum.splits prod.splits option.splits)

lemma queue_static_mem:
  "(Queue (StaticCopy ds a b) \<in> set (snd (queue_effects env opts secs)))
     = (staticDirs secs = Some ds \<and> a = outputDir opts \<and> b = configDir opts)"
  by (auto simp: queue_effects_def andThen_snd andThen_fst await_def emit_def Let_def
        truthy_array_def split: sum.splits prod.splits option.splits)

lemma queue_ok:
  "fst (queue_effects env opts secs) = Inr effects \<Longrightarrow>
     (t \<in> set effects) = (Queue t \<in> set (snd (queue_effects env opts secs)))"
  by (auto simp: queue_effects_def andThen_snd andThen_fst await_def emit_def Let_def
        split: sum.splits prod.splits option.splits if_splits)

lemma join_snd:
  "snd (join_all env opts effects) =
     (if ignorePreview opts then [Join (map Effect effects)]
      else PreviewBuild # Join (PreviewChain # map Effect effects) # snd (preview_chain env opts))"
  by (simp add: join_all_def Let_def)

lemma join_fst:
  "fst (join_all env opts effects) =
     promise_all (rejection_time env) (member_result env (fst (preview_chain env opts)))
       ((if ignorePreview opts then [] else [PreviewChain]) @ map Effect effects)"
  by (simp add: join_all_def Let_def)

lemma chain_events:
  "snd (preview_chain env opts) =
     (if previewBuilder_build env \<noteq> None then preview_failed
      else [LogTrace ''=> Preview built'']
           @ (if truthy_stats (stats_or (webpackStatsJson opts) (statsJson opts))
              then [OutputStats (stats_target (outputDir opts)
                                   (stats_or (webpackStatsJson opts) (statsJson opts)))]
              else [])
           @ (if fst (preview_chain env opts) \<noteq> None then preview_failed else []))"
  by (auto simp: preview_chain_def Let_def split: option.splits)


lemma chain_result:
  "previewBuilder_build env = Some e \<Longrightarrow> fst (preview_chain env opts) = Some e"
  by (simp add: preview_chain_def)



lemma first_rejection_none:
  "(first_rejection time res ms = None) = (\<forall>m \<in> set ms. res m = None)"
  by (induction ms) (auto split: option.splits if_splits)

lemma promise_all_resolves:
  "(promise_all time res ms = Inr ()) = (\<forall>m \<in> set ms. res m = None)"
proof -
  have "(promise_all time res ms = Inr ()) = (first_rejection time res ms = None)"
    by (auto simp: promise_all_def split: option.splits)
  then show ?thesis
    by (simp add: first_rejection_none)
qed


lemma finish_snd:
  "snd (finish env opts secs) =
     (if telemetry_disabled (core secs) then [LogInfo (''=> Output directory: '' @ outputDir opts)]
      else Queue Telemetry # LogInfo (''=> Output directory: '' @ outputDir opts)
           # snd (telemetry_task env opts))"
  by (simp add: finish_def Let_def)

lemma finish_fst: "fst (finish env opts secs) = Inr ()"
  by (simp add: finish_def Let_def)

lemma telemetry_task_events:
  "snd (telemetry_task env opts) = [] \<or> (\<exists>u i. snd (telemetry_task env opts) = [TelemetrySubmit u i (configDir opts)])"
  by (auto simp: telemetry_task_def split: sum.splits option.splits)


lemma run_fst:
  "fst (buildStaticStandalone env w) =
     (case fst (output_guard env w) of
        Inl e \<Rightarrow> Inl e
      | Inr u \<Rightarrow> fst (build env (options (snd (output_guard env w)))))"
  by (auto simp: buildStaticStandalone_def split: prod.splits sum.splits)


subsection \<open>The events that a phase cannot add\<close>

lemma guard_none:
  "\<not> list_ex is_pass2 (guard_events env w)"
  "\<not> list_ex is_manager_build (guard_events env w)"
  "\<not> list_ex is_queue (guard_events env w)"
  "\<not> list_ex is_static_copy (guard_events env w)"
  "\<not> list_ex is_preview_build (guard_events env w)"
  "\<not> list_ex is_join (guard_events env w)"
  "\<not> list_ex is_set_exitCode (guard_events env w)"
  "\<not> list_ex is_queue_telemetry (guard_events env w)"
  "\<not> list_ex is_submit (guard_events env w)"
  "\<not> list_ex is_report (guard_events env w)"
  "\<not> list_ex (joins t) (guard_events env w)"
  by (rule none_of_kind [OF guard_events_all], simp add: guard_event_kind)+

lemma load_none:
  "\<not> list_ex is_manager_build (snd (load_configuration env opts))"
  "\<not> list_ex is_queue (snd (load_configuration env opts))"
  "\<not> list_ex is_static_copy (snd (load_configuration env opts))"
  "\<not> list_ex is_preview_build (snd (load_configuration env opts))"
  "\<not> list_ex is_join (snd (load_configuration env opts))"
  "\<not> list_ex is_set_exitCode (snd (load_configuration env opts))"
  "\<not> list_ex is_queue_telemetry (snd (load_configuration env opts))"
  "\<not> list_ex is_submit (snd (load_configuration env opts))"
  "\<not> list_ex is_report (snd (load_configuration env opts))"
  "\<not> list_ex (joins t) (snd (load_configuration env opts))"
  by (rule none_of_kind [OF load_events], simp add: config_event_kind)+

lemma queue_none:
  "\<not> list_ex is_manager_build (snd (queue_effects env opts secs))"
  "\<not> list_ex is_pass2 (snd (queue_effects env opts secs))"
  "\<not> list_ex is_preview_build (snd (queue_effects env opts secs))"
  "\<not> list_ex is_join (snd (queue_effects env opts secs))"
  "\<not> list_ex is_set_exitCode (snd (queue_effects env opts secs))"
  "\<not> list_ex is_queue_telemetry (snd (queue_effects env opts secs))"
  "\<not> list_ex is_submit (snd (queue_effects env opts secs))"
  "\<not> list_ex is_report (snd (queue_effects env opts secs))"
  "\<not> list_ex (joins t) (snd (queue_effects env opts secs))"
  by (rule none_of_kind [OF queue_events], simp add: queue_event_kind)+

lemma join_none:
  "\<not> list_ex is_manager_build (snd (join_all env opts effects))"
  "\<not> list_ex is_pass2 (snd (join_all env opts effects))"
  "\<not> list_ex is_queue (snd (join_all env opts effects))"
  "\<not> list_ex is_static_copy (snd (join_all env opts effects))"
  "\<not> list_ex is_queue_telemetry (snd (join_all env opts effects))"
  "\<not> list_ex is_submit (snd (join_all env opts effects))"
  "\<not> list_ex is_report (snd (join_all env opts effects))"
  by (rule none_of_kind [OF join_events], simp add: join_event_kind)+

lemma finish_none:
  "\<not> list_ex is_manager_build (snd (finish env opts secs))"
  "\<not> list_ex is_pass2 (snd (finish env opts secs))"
  "\<not> list_ex is_static_copy (snd (finish env opts secs))"
  "\<not> list_ex is_preview_build (snd (finish env opts secs))"
  "\<not> list_ex is_join (snd (finish env opts secs))"
  "\<not> list_ex is_set_exitCode (snd (finish env opts secs))"
  "\<not> list_ex (joins t) (snd (finish env opts secs))"
  by (rule none_of_kind [OF finish_events], simp add: finish_event_kind)+

subsection \<open>Where a run ends\<close>

text \<open>
  A run ends in the guard, while the configuration is loaded, in the manager build, while
  the side effects are queued, in the join, or at the end of the function.
\<close>

lemma run_cases [case_names guard load manager queue join finish]:
  obtains
    (guard) e where
      "fst (output_guard env w) = Inl e"
      "fst (buildStaticStandalone env w) = Inl e"
      "events env w = guard_events env w"
  | (load) e where
      "fst (output_guard env w) = Inr ()"
      "fst (load_configuration env (options (snd (output_guard env w)))) = Inl e"
      "fst (buildStaticStandalone env w) = Inl e"
      "events env w =
         guard_events env w @ snd (load_configuration env (options (snd (output_guard env w))))"
  | (manager) secs e where
      "fst (output_guard env w) = Inr ()"
      "fst (load_configuration env (options (snd (output_guard env w)))) = Inr secs"
      "managerBuilder_build env = Some e"
      "fst (buildStaticStandalone env w) = Inl e"
      "events env w =
         guard_events env w @ snd (load_configuration env (options (snd (output_guard env w))))
         @ [SetGlobalFeatures, ManagerBuild]"
  | (queue) secs e where
      "fst (output_guard env w) = Inr ()"
      "fst (load_configuration env (options (snd (output_guard env w)))) = Inr secs"
      "managerBuilder_build env = None"
      "fst (queue_effects env (options (snd (output_guard env w))) secs) = Inl e"
      "fst (buildStaticStandalone env w) = Inl e"
      "events env w =
         guard_events env w @ snd (load_configuration env (options (snd (output_guard env w))))
         @ [SetGlobalFeatures, ManagerBuild]
         @ snd (queue_effects env (options (snd (output_guard env w))) secs)"
  | (join) secs effects e where
      "fst (output_guard env w) = Inr ()"
      "fst (load_configuration env (options (snd (output_guard env w)))) = Inr secs"
      "managerBuilder_build env = None"
      "fst (queue_effects env (options (snd (output_guard env w))) secs) = Inr effects"
      "fst (join_all env (options (snd (output_guard env w))) effects) = Inl e"
      "fst (buildStaticStandalone env w) = Inl e"
      "events env w =
         guard_events env w @ snd (load_configuration env (options (snd (output_guard env w))))
         @ [SetGlobalFeatures, ManagerBuild]
         @ snd (queue_effects env (options (snd (output_guard env w))) secs)
         @ snd (join_all env (options (snd (output_guard env w))) effects)"
  | (finish) secs effects where
      "fst (output_guard env w) = Inr ()"
      "fst (load_configuration env (options (snd (output_guard env w)))) = Inr secs"
      "managerBuilder_build env = None"
      "fst (queue_effects env (options (snd (output_guard env w))) secs) = Inr effects"
      "fst (join_all env (options (snd (output_guard env w))) effects) = Inr ()"
      "fst (buildStaticStandalone env w) = Inr ()"
      "events env w =
         guard_events env w @ snd (load_configuration env (options (snd (output_guard env w))))
         @ [SetGlobalFeatures, ManagerBuild]
         @ snd (queue_effects env (options (snd (output_guard env w))) secs)
         @ snd (join_all env (options (snd (output_guard env w))) effects)
         @ snd (finish env (options (snd (output_guard env w))) secs)"
proof (cases "fst (output_guard env w)")
  case (Inl e)
  then show ?thesis
    by (intro guard [of e]) (simp_all add: run_fst events_split)
next
  case g: (Inr u)
  let ?o = "options (snd (output_guard env w))"
  show ?thesis
  proof (cases "fst (load_configuration env ?o)")
    case (Inl e)
    with g show ?thesis
      by (intro load [of e]) (simp_all add: run_fst events_split build_fst build_snd)
  next
    case l: (Inr secs)
    show ?thesis
    proof (cases "managerBuilder_build env")
      case (Some e)
      with g l show ?thesis
        by (intro manager [of secs e])
          (simp_all add: run_fst events_split build_fst build_snd manager_fst manager_events)
    next
      case m: None
      show ?thesis
      proof (cases "fst (queue_effects env ?o secs)")
        case (Inl e)
        with g l m show ?thesis
          by (intro queue [of secs e])
            (simp_all add: run_fst events_split build_fst build_snd manager_fst manager_events)
      next
        case q: (Inr effects)
        show ?thesis
        proof (cases "fst (join_all env ?o effects)")
          case (Inl e)
          with g l m q show ?thesis
            by (intro join [of secs effects e])
              (simp_all add: run_fst events_split build_fst build_snd manager_fst manager_events)
        next
          case (Inr u')
          with g l m q show ?thesis
            by (intro finish [of secs effects])
              (simp_all add: run_fst events_split build_fst build_snd manager_fst manager_events
                 finish_fst)
        qed
      qed
    qed
  qed
qed

subsection \<open>The join and the exit code\<close>

lemma run_options:
  "options (snd (buildStaticStandalone env w)) = options (snd (output_guard env w))"
  by (simp add: buildStaticStandalone_def split: prod.splits sum.splits)

lemma filter_none: "\<not> list_ex P xs \<Longrightarrow> filter P xs = []"
  by (induction xs) auto






lemma join_once:
  "filter is_join (snd (join_all env opts effects)) =
     [Join ((if ignorePreview opts then [] else [PreviewChain]) @ map Effect effects)]"
  by (auto simp: join_snd preview_chain_def preview_failed_def Let_def split: option.splits)

lemma join_resolved:
  assumes "fst (join_all env opts effects) = Inr ()"
  shows "(\<not> ignorePreview opts \<longrightarrow> fst (preview_chain env opts) = None)
       \<and> (\<forall>t \<in> set effects. task_result env t = None)"
proof -
  let ?ms = "(if ignorePreview opts then [] else [PreviewChain]) @ map Effect effects"
  from assms have a: "member_result env (fst (preview_chain env opts)) m = None"
    if "m \<in> set ?ms" for m
    using that by (simp add: join_fst promise_all_resolves)
  have "task_result env t = None" if "t \<in> set effects" for t
    using a [of "Effect t"] that by (simp add: member_result_def)
  moreover have "fst (preview_chain env opts) = None" if "\<not> ignorePreview opts"
    using a [of PreviewChain] that by (simp add: member_result_def)
  ultimately show ?thesis by blast
qed



lemma ignorePreview_guard:
  "ignorePreview (options (snd (output_guard env w))) = ignorePreview (options w)"
  by (simp add: options_guard)

subsection \<open>The end of the function\<close>

lemma finish_telemetry:
  "list_ex is_queue_telemetry (snd (finish env opts secs)) = (\<not> telemetry_disabled (core secs))"
  "list_ex is_submit (snd (finish env opts secs)) \<Longrightarrow> \<not> telemetry_disabled (core secs)"
  "precedes is_queue_telemetry is_submit (snd (finish env opts secs))"
  "\<not> telemetry_disabled (core secs) \<Longrightarrow>
     precedes is_queue_telemetry is_report (snd (finish env opts secs))"
  "precedes is_report is_submit (snd (finish env opts secs))"
  "list_ex is_report (snd (finish env opts secs))"
  "length (filter is_submit (snd (finish env opts secs))) \<le> 1"
  using telemetry_task_events [of env opts]
  by (auto simp: finish_snd)

text \<open>What the telemetry call answers has no part in the result of the run.\<close>

lemma telemetry_irrelevant:
  "fst (buildStaticStandalone (env\<lparr>telemetry := x\<rparr>) w) = fst (buildStaticStandalone env w)"
proof -
  have g: "output_guard (env\<lparr>telemetry := x\<rparr>) w = output_guard env w"
    by (simp add: output_guard_def fs_readdir_def fs_rm_def fs_mkdir_def Let_def
          cong: if_cong sum.case_cong option.case_cong)
  have l: "load_configuration (env\<lparr>telemetry := x\<rparr>) opts = load_configuration env opts" for opts
    by (simp add: load_configuration_def cong: if_cong sum.case_cong option.case_cong)
  have m: "build_manager (env\<lparr>telemetry := x\<rparr>) = build_manager env"
    by (simp add: build_manager_def cong: if_cong sum.case_cong option.case_cong)
  have q: "queue_effects (env\<lparr>telemetry := x\<rparr>) opts secs = queue_effects env opts secs"
    for opts secs
    by (simp add: queue_effects_def cong: if_cong sum.case_cong option.case_cong)
  have r: "member_result (env\<lparr>telemetry := x\<rparr>) c = member_result env c" for c
    by (rule ext) (simp add: member_result_def split: member.splits)
  have t: "rejection_time (env\<lparr>telemetry := x\<rparr>) = rejection_time env"
    by (rule ext) (simp add: rejection_time_def split: member.splits)
  have j: "join_all (env\<lparr>telemetry := x\<rparr>) opts effects = join_all env opts effects"
    for opts effects
    by (simp add: join_all_def preview_chain_def r t
          cong: if_cong sum.case_cong option.case_cong)
  have b: "fst (build (env\<lparr>telemetry := x\<rparr>) opts) = fst (build env opts)" for opts
    by (simp add: build_fst l m q j finish_fst cong: sum.case_cong)
  show ?thesis
    by (simp add: run_fst g b cong: sum.case_cong)
qed

section \<open>The claims\<close>

text \<open>
  C1. The claim is that for an output directory that does not exist the guard completes
  without an error and removes nothing, and that the run goes on to load the
  configuration. The code lists the directory first, with nothing around the call that
  catches a rejection: when the resolved output directory is not in the file system, the
  listing rejects and so does the call, with ENOENT, or with ENOTDIR when the path leads
  through a file. Nothing is removed or created, the trace ends with the listing, and the
  configuration is never loaded.
\<close>

theorem missing_outputDir_rejects:
  assumes "outputDir (options w) \<noteq> []"
    and "resolve (cwd env) (outputDir (options w)) \<noteq> ''/''"
    and "fs_fault env (Readdir (resolve (cwd env) (outputDir (options w)))) = None"
    and "map_of (fs w) (parts (resolve (cwd env) (outputDir (options w)))) = None"
  shows "fst (buildStaticStandalone env w)
           = Inl (if through_file (fs w) (resolve (cwd env) (outputDir (options w)))
                  then ENOTDIR (resolve (cwd env) (outputDir (options w)))
                  else ENOENT (resolve (cwd env) (outputDir (options w))))
       \<and> fs (snd (buildStaticStandalone env w)) = fs w
       \<and> events env w =
           [LogInfo (''=> Cleaning outputDir: ''
                     @ relative_path env (cwd env) (resolve (cwd env) (outputDir (options w)))),
            Readdir (resolve (cwd env) (outputDir (options w)))]"
  using assms
  by (simp add: events_def buildStaticStandalone_def output_guard_def Let_def log_def
        fs_readdir_def readdir_def)

theorem missing_outputDir_rejects_witness:
  "fst (buildStaticStandalone demo_env fresh_world)
     = Inl (ENOENT ''/home/me/app/storybook-static'')
   \<and> fs (snd (buildStaticStandalone demo_env fresh_world)) = fs fresh_world
   \<and> events demo_env fresh_world =
       [LogInfo ''=> Cleaning outputDir: storybook-static'',
        Readdir ''/home/me/app/storybook-static'']"
proof -
  have 1: "outputDir (options fresh_world) \<noteq> []"
    by code_simp
  have r: "resolve (cwd demo_env) (outputDir (options fresh_world))
             = ''/home/me/app/storybook-static''"
    by code_simp
  have 2: "resolve (cwd demo_env) (outputDir (options fresh_world)) \<noteq> ''/''"
    unfolding r by simp
  have 3: "fs_fault demo_env
             (Readdir (resolve (cwd demo_env) (outputDir (options fresh_world)))) = None"
    by (simp add: demo_env_def)
  have 4: "map_of (fs fresh_world)
             (parts (resolve (cwd demo_env) (outputDir (options fresh_world)))) = None"
    by code_simp
  have 5: "relative_path demo_env (cwd demo_env) ''/home/me/app/storybook-static''
             = ''storybook-static''"
    by code_simp
  have 6: "\<not> through_file (fs fresh_world) ''/home/me/app/storybook-static''"
    by code_simp
  from missing_outputDir_rejects [OF 1 2 3 4] show ?thesis
    unfolding r 5 using 6 by simp
qed

text \<open>
  C2. The claim is that the build of the manager (the shell builder) completes, or aborts
  the run, strictly before the second \<^verbatim>\<open>loadAllPresets\<close> begins. The code has the
  opposite order: the second load is at line 85 and the manager build at line 121, and
  the manager is built with the presets that the second load returns. So in every run the
  second load comes strictly before the manager build, and when the second load rejects
  the manager is never built.
\<close>

theorem pass2_before_manager_build:
  "precedes is_pass2 is_manager_build (events env w)
   \<and> (loadAllPresets env Pass2 \<noteq> None \<longrightarrow> \<not> list_ex is_manager_build (events env w))"
proof (cases rule: run_cases [of env w])
  case (guard e)
  then show ?thesis by (simp add: guard_none precedes_none)
next
  case (load e)
  then show ?thesis by (simp add: guard_none load_none precedes_none)
next
  case (manager secs e)
  with load_ok [OF manager(2)] show ?thesis
    by (simp add: guard_none load_none precedes_append precedes_none)
next
  case (queue secs e)
  with load_ok [OF queue(2)] show ?thesis
    by (simp add: guard_none load_none precedes_append precedes_none)
next
  case (join secs effects e)
  with load_ok [OF join(2)] show ?thesis
    by (simp add: guard_none load_none precedes_append precedes_none)
next
  case (finish secs effects)
  with load_ok [OF finish(2)] show ?thesis
    by (simp add: guard_none load_none precedes_append precedes_none)
qed

theorem pass2_before_manager_build_counterexample:
  "\<not> precedes is_manager_build is_pass2 (events demo_env demo_world)"
  by code_simp

theorem pass2_before_manager_build_witness:
  "list_ex is_manager_build (events demo_env demo_world)
   \<and> precedes is_pass2 is_manager_build (events demo_env demo_world)
   \<and> \<not> list_ex is_manager_build (events pass2_fails_env demo_world)"
proof -
  have 1: "list_ex is_manager_build (events demo_env demo_world)"
    by code_simp
  have 2: "loadAllPresets pass2_fails_env Pass2 \<noteq> None"
    by (simp add: pass2_fails_env_def)
  from 1 2 pass2_before_manager_build [of demo_env demo_world]
    pass2_before_manager_build [of pass2_fails_env demo_world]
  show ?thesis by blast
qed

text \<open>
  C3. The claim is that a successful run with telemetry enabled awaits the telemetry task
  before it reports the output directory and returns, draining the set of side effects in
  two batches. The code pushes the telemetry task onto \<^verbatim>\<open>effects\<close> at line 210, as it
  pushes every other task, but after the only \<^verbatim>\<open>await\<close> of that array (lines 181 to
  206): nothing reads the array again, and lines 209 to 227 await nothing. What the code
  does in a successful run with telemetry enabled: there is exactly one join, the
  telemetry task is no member of it, the task is queued after the join and before the
  report, the telemetry event comes after the report, and the call resolves whatever the
  telemetry call answers.
\<close>

theorem telemetry_queued_not_awaited:
  assumes "fst (buildStaticStandalone env w) = Inr ()"
    and "apply_all env = Inr secs"
    and "\<not> telemetry_disabled (core secs)"
  shows "length (filter is_join (events env w)) = 1
       \<and> \<not> list_ex (joins Telemetry) (events env w)
       \<and> list_ex is_queue_telemetry (events env w)
       \<and> precedes is_join is_queue_telemetry (events env w)
       \<and> list_ex is_report (events env w)
       \<and> precedes is_queue_telemetry is_report (events env w)
       \<and> precedes is_report is_submit (events env w)
       \<and> fst (buildStaticStandalone (env\<lparr>telemetry := x\<rparr>) w) = Inr ()"
proof (cases rule: run_cases [of env w])
  case (finish secs' effects)
  let ?o = "options (snd (output_guard env w))"
  note none = guard_none load_none queue_none join_none finish_none
  from load_ok [OF finish(2)] assms(2) have s: "secs' = secs"
    by simp
  have "Telemetry \<notin> set effects"
    using queue_ok [OF finish(4), of Telemetry] queue_none(6) [of env ?o secs']
    by (auto simp: list_ex_iff)
  then have nj: "\<not> list_ex (joins Telemetry) (snd (join_all env ?o effects))"
    by (auto simp: join_snd preview_chain_def preview_failed_def Let_def split: option.splits)
  have j: "list_ex is_join (snd (join_all env ?o effects))"
    by (simp add: join_snd)
  have 1: "length (filter is_join (events env w)) = 1"
    using finish by (simp add: none filter_none join_once)
  have 2: "\<not> list_ex (joins Telemetry) (events env w)"
    using finish nj by (simp add: none)
  have 3: "list_ex is_queue_telemetry (events env w)"
    using finish assms(3) by (simp add: s finish_telemetry(1))
  have 4: "precedes is_join is_queue_telemetry (events env w)"
    using finish j by (simp add: none precedes_append precedes_none)
  have 5: "list_ex is_report (events env w)"
    using finish by (simp add: finish_telemetry(6))
  have 6: "precedes is_queue_telemetry is_report (events env w)"
    using finish assms(3) by (simp add: s none precedes_append finish_telemetry(4))
  have 7: "precedes is_report is_submit (events env w)"
    using finish by (simp add: none precedes_append finish_telemetry(5))
  from 1 2 3 4 5 6 7 assms(1) show ?thesis
    by (simp add: telemetry_irrelevant)
qed (use assms(1) in simp_all)

theorem telemetry_after_report:
  "fst (buildStaticStandalone demo_env demo_world) = Inr ()
   \<and> list_ex is_queue_telemetry (events demo_env demo_world)
   \<and> \<not> list_ex (joins Telemetry) (events demo_env demo_world)
   \<and> length (filter is_join (events demo_env demo_world)) = 1
   \<and> list_ex is_submit (events demo_env demo_world)
   \<and> \<not> precedes is_submit is_report (events demo_env demo_world)
   \<and> fst (buildStaticStandalone telemetry_fails_env demo_world) = Inr ()"
  by code_simp

theorem telemetry_queued_not_awaited_witness:
  "length (filter is_join (events demo_env demo_world)) = 1
   \<and> \<not> list_ex (joins Telemetry) (events demo_env demo_world)
   \<and> list_ex is_queue_telemetry (events demo_env demo_world)
   \<and> precedes is_join is_queue_telemetry (events demo_env demo_world)
   \<and> list_ex is_report (events demo_env demo_world)
   \<and> precedes is_queue_telemetry is_report (events demo_env demo_world)
   \<and> precedes is_report is_submit (events demo_env demo_world)
   \<and> fst (buildStaticStandalone (demo_env\<lparr>telemetry := Some (Rejected ''offline'')\<rparr>) demo_world)
       = Inr ()"
proof -
  have 1: "fst (buildStaticStandalone demo_env demo_world) = Inr ()"
    by code_simp
  have 2: "apply_all demo_env
     = Inr \<lparr>core = Some \<lparr>renderer = Some ''@storybook/react'', disableTelemetry = False,
                            disableProjectJson = False\<rparr>,
            staticDirs = Some []\<rparr>"
    by (simp add: demo_env_def)
  have 3: "\<not> telemetry_disabled
               (core \<lparr>core = Some \<lparr>renderer = Some ''@storybook/react'',
                                     disableTelemetry = False, disableProjectJson = False\<rparr>,
                      staticDirs = Some []\<rparr>)"
    by (simp add: telemetry_disabled_def)
  from telemetry_queued_not_awaited [OF 1 2 3, of "Some (Rejected ''offline'')"]
  show ?thesis .
qed

text \<open>
  C4. The claim is that the static copy is queued exactly when \<^verbatim>\<open>staticDirs\<close> is not
  empty. The test at line 125 is \<^verbatim>\<open>if (staticDirs)\<close>, and an empty array is truthy: the
  task is queued exactly when the run reaches line 125 (the manager was built) and the
  section is defined, and for an empty collection it is queued with that empty collection.
\<close>

theorem static_copy_queued_when_defined:
  "list_ex is_static_copy (events env w) =
     (list_ex is_manager_build (events env w) \<and> managerBuilder_build env = None
      \<and> (case apply_all env of Inl e \<Rightarrow> False | Inr secs \<Rightarrow> staticDirs secs \<noteq> None))
   \<and> (list_ex is_manager_build (events env w) \<and> managerBuilder_build env = None
      \<and> apply_all env = Inr secs \<and> staticDirs secs = Some ds \<longrightarrow>
        Queue (StaticCopy ds (outputDir (options (snd (buildStaticStandalone env w))))
                 (configDir (options (snd (buildStaticStandalone env w)))))
          \<in> set (events env w))"
proof (cases rule: run_cases [of env w])
  case (guard e')
  then show ?thesis by (simp add: guard_none)
next
  case (load e')
  then show ?thesis by (simp add: guard_none load_none)
next
  case (manager secs' e')
  then show ?thesis by (simp add: guard_none load_none)
next
  case (queue secs' e')
  with load_ok [OF queue(2)] show ?thesis
    by (auto simp: guard_none load_none queue_static queue_static_mem run_options)
next
  case (join secs' effects e')
  with load_ok [OF join(2)] show ?thesis
    by (auto simp: guard_none load_none join_none queue_static queue_static_mem run_options)
next
  case (finish secs' effects)
  with load_ok [OF finish(2)] show ?thesis
    by (auto simp: guard_none load_none join_none finish_none queue_static queue_static_mem
          run_options)
qed

theorem static_copy_queued_when_defined_counterexample:
  "apply_all demo_env
     = Inr \<lparr>core = Some \<lparr>renderer = Some ''@storybook/react'', disableTelemetry = False,
                            disableProjectJson = False\<rparr>,
            staticDirs = Some []\<rparr>
   \<and> list_ex is_static_copy (events demo_env demo_world)"
proof -
  have "apply_all demo_env
     = Inr \<lparr>core = Some \<lparr>renderer = Some ''@storybook/react'', disableTelemetry = False,
                            disableProjectJson = False\<rparr>,
            staticDirs = Some []\<rparr>"
    by (simp add: demo_env_def)
  moreover have "list_ex is_static_copy (events demo_env demo_world)"
    by code_simp
  ultimately show ?thesis by simp
qed

theorem static_copy_queued_when_defined_witness:
  "Queue (StaticCopy [] ''/home/me/app/storybook-static'' ''/home/me/app/.storybook'')
     \<in> set (events demo_env demo_world)
   \<and> list_ex is_manager_build (events no_static_env demo_world)
   \<and> \<not> list_ex is_static_copy (events no_static_env demo_world)"
proof -
  have 1: "list_ex is_manager_build (events demo_env demo_world)"
    "list_ex is_manager_build (events no_static_env demo_world)"
    by code_simp+
  have 2: "managerBuilder_build demo_env = None" "managerBuilder_build no_static_env = None"
    by (simp_all add: demo_env_def no_static_env_def)
  have 3: "apply_all demo_env
     = Inr \<lparr>core = Some \<lparr>renderer = Some ''@storybook/react'', disableTelemetry = False,
                            disableProjectJson = False\<rparr>,
            staticDirs = Some []\<rparr>"
    "apply_all no_static_env = Inr \<lparr>core = None, staticDirs = None\<rparr>"
    by (simp_all add: demo_env_def no_static_env_def)
  have 4: "outputDir (options (snd (buildStaticStandalone demo_env demo_world)))
             = ''/home/me/app/storybook-static''"
    "configDir (options (snd (buildStaticStandalone demo_env demo_world)))
             = ''/home/me/app/.storybook''"
    by code_simp+
  from static_copy_queued_when_defined [of demo_env demo_world
      "\<lparr>core = Some \<lparr>renderer = Some ''@storybook/react'', disableTelemetry = False,
                           disableProjectJson = False\<rparr>,
         staticDirs = Some []\<rparr>" "[]"]
    static_copy_queued_when_defined [of no_static_env demo_world]
  show ?thesis
    using 1 2 by (simp add: 3 4)
qed

text \<open>
  C5. A request with an empty output directory is refused before anything else happens:
  no event at all, the file system untouched, the path not yet resolved. A request whose
  output directory resolves to the root is refused after the resolution (the request holds
  the resolved path) and before any call to the file system. In every run the directory is
  listed before it is removed, and removed before it is made again. So the order is: the
  test for the empty string, the resolution, the test for the root, the listing, the
  removal.
\<close>

theorem guard_check_order:
  "(outputDir (options w) = [] \<longrightarrow>
      fst (buildStaticStandalone env w)
        = Inl (Error ''Won't remove current directory. Check your outputDir!'')
      \<and> events env w = []
      \<and> fs (snd (buildStaticStandalone env w)) = fs w
      \<and> outputDir (options (snd (buildStaticStandalone env w))) = [])
   \<and> (outputDir (options w) \<noteq> [] \<and> resolve (cwd env) (outputDir (options w)) = ''/'' \<longrightarrow>
      fst (buildStaticStandalone env w)
        = Inl (Error ''Won't remove directory '/'. Check your outputDir!'')
      \<and> \<not> list_ex is_fs_event (events env w)
      \<and> fs (snd (buildStaticStandalone env w)) = fs w
      \<and> outputDir (options (snd (buildStaticStandalone env w))) = ''/'')
   \<and> precedes is_readdir is_rm (events env w)
   \<and> precedes is_rm is_mkdir (events env w)"
proof -
  have 1: "outputDir (options w) = [] \<Longrightarrow>
      fst (buildStaticStandalone env w)
        = Inl (Error ''Won't remove current directory. Check your outputDir!'')
      \<and> events env w = []
      \<and> fs (snd (buildStaticStandalone env w)) = fs w
      \<and> outputDir (options (snd (buildStaticStandalone env w))) = []"
    by (simp add: events_def buildStaticStandalone_def output_guard_def)
  have 2: "outputDir (options w) \<noteq> [] \<and> resolve (cwd env) (outputDir (options w)) = ''/'' \<Longrightarrow>
      fst (buildStaticStandalone env w)
        = Inl (Error ''Won't remove directory '/'. Check your outputDir!'')
      \<and> \<not> list_ex is_fs_event (events env w)
      \<and> fs (snd (buildStaticStandalone env w)) = fs w
      \<and> outputDir (options (snd (buildStaticStandalone env w))) = ''/''"
    by (simp add: events_def buildStaticStandalone_def output_guard_def Let_def log_def)
  have no: "\<not> list_ex is_rm xs \<and> \<not> list_ex is_mkdir xs \<and> \<not> list_ex is_readdir xs"
    if "\<not> list_ex is_fs_event xs" for xs
    using that by (induction xs) (auto elim: is_rm.elims is_mkdir.elims is_readdir.elims)
  note nb = no [OF build_no_fs]
  have pb: "precedes P is_rm (snd (build env opts)) \<and> precedes P is_mkdir (snd (build env opts))"
    for P opts
    by (simp add: nb precedes_none)
  have 3: "precedes is_readdir is_rm (events env w)"
    using guard_events_cases [of env w]
    by (auto simp: events_split precedes_append nb pb split: sum.splits)
  have 4: "precedes is_rm is_mkdir (events env w)"
    using guard_events_cases [of env w]
    by (auto simp: events_split precedes_append nb pb split: sum.splits)
  from 1 2 3 4 show ?thesis by blast
qed

theorem guard_check_order_witness:
  "fst (buildStaticStandalone demo_env empty_world)
     = Inl (Error ''Won't remove current directory. Check your outputDir!'')
   \<and> events demo_env empty_world = []
   \<and> fs (snd (buildStaticStandalone demo_env empty_world)) = fs empty_world
   \<and> resolve (cwd demo_env) (outputDir (options root_world)) = ''/''
   \<and> fst (buildStaticStandalone demo_env root_world)
     = Inl (Error ''Won't remove directory '/'. Check your outputDir!'')
   \<and> \<not> list_ex is_fs_event (events demo_env root_world)
   \<and> fs (snd (buildStaticStandalone demo_env root_world)) = fs root_world
   \<and> list_ex is_mkdir (events demo_env demo_world)
   \<and> precedes is_readdir is_rm (events demo_env demo_world)
   \<and> precedes is_rm is_mkdir (events demo_env demo_world)"
proof -
  have 1: "outputDir (options empty_world) = []"
    by code_simp
  have 2: "outputDir (options root_world) \<noteq> []"
    by code_simp
  have 3: "resolve (cwd demo_env) (outputDir (options root_world)) = ''/''"
    by code_simp
  have 4: "list_ex is_mkdir (events demo_env demo_world)"
    by code_simp
  from guard_check_order [of empty_world demo_env] guard_check_order [of root_world demo_env]
    guard_check_order [of demo_world demo_env] 1 2 3 4
  show ?thesis by simp
qed




text \<open>
  C7. When the build of the manager rejects, the call rejects, and the run has no preview
  build, no queued task of any kind (static copy, asset copy, index export, metadata
  export, telemetry), no join and no telemetry event. When the run got as far as the
  manager build, that build is its last event and the call rejects with the error of the
  build.
\<close>

theorem manager_failure_aborts:
  assumes "managerBuilder_build env = Some e"
  shows "fst (buildStaticStandalone env w) \<noteq> Inr ()
       \<and> \<not> list_ex is_preview_build (events env w)
       \<and> \<not> list_ex is_queue (events env w)
       \<and> \<not> list_ex is_join (events env w)
       \<and> \<not> list_ex is_submit (events env w)
       \<and> (list_ex is_manager_build (events env w) \<longrightarrow>
            fst (buildStaticStandalone env w) = Inl e \<and> last (events env w) = ManagerBuild)"
proof (cases rule: run_cases [of env w])
  case (guard e')
  then show ?thesis by (simp add: guard_none)
next
  case (load e')
  then show ?thesis by (simp add: guard_none load_none)
next
  case (manager secs e')
  with assms show ?thesis by (simp add: guard_none load_none)
next
  case (queue secs e')
  with assms show ?thesis by simp
next
  case (join secs effects e')
  with assms show ?thesis by simp
next
  case (finish secs effects)
  with assms show ?thesis by simp
qed

theorem manager_failure_aborts_witness:
  "fst (buildStaticStandalone manager_fails_env demo_world) = Inl (Rejected ''manager build failed'')
   \<and> last (events manager_fails_env demo_world) = ManagerBuild
   \<and> \<not> list_ex is_preview_build (events manager_fails_env demo_world)
   \<and> \<not> list_ex is_queue (events manager_fails_env demo_world)
   \<and> \<not> list_ex is_join (events manager_fails_env demo_world)
   \<and> \<not> list_ex is_submit (events manager_fails_env demo_world)"
proof -
  have 1: "managerBuilder_build manager_fails_env = Some (Rejected ''manager build failed'')"
    by (simp add: manager_fails_env_def)
  have 2: "list_ex is_manager_build (events manager_fails_env demo_world)"
    by code_simp
  from manager_failure_aborts [OF 1, of demo_world] 2 show ?thesis
    by simp
qed




text \<open>
  C9. The telemetry task is queued, and a telemetry event submitted, only in a run whose
  call resolves: the join has resolved (the preview build, when it is not skipped, and the
  export of its stats have resolved, and so has every task queued before the join), and
  the \<^verbatim>\<open>core\<close> section does not disable telemetry. The task is queued after the join,
  and the event is submitted after the task is queued, at most once. When telemetry is
  disabled, or the sections could not be read at all, no telemetry task is queued and no
  event is submitted, whatever the builds do.
\<close>

theorem telemetry_only_after_success:
  "(list_ex is_queue_telemetry (events env w) \<or> list_ex is_submit (events env w) \<longrightarrow>
      fst (buildStaticStandalone env w) = Inr ()
      \<and> (case apply_all env of Inl e \<Rightarrow> False | Inr secs \<Rightarrow> \<not> telemetry_disabled (core secs))
      \<and> (\<not> ignorePreview (options w) \<longrightarrow>
           previewBuilder_build env = None
           \<and> fst (preview_chain env (options (snd (buildStaticStandalone env w)))) = None)
      \<and> (\<forall>t. Queue t \<in> set (events env w) \<and> t \<noteq> Telemetry \<longrightarrow> task_result env t = None))
   \<and> precedes is_join is_queue_telemetry (events env w)
   \<and> precedes is_queue_telemetry is_submit (events env w)
   \<and> ((case apply_all env of Inl e \<Rightarrow> True | Inr secs \<Rightarrow> telemetry_disabled (core secs)) \<longrightarrow>
        \<not> list_ex is_queue_telemetry (events env w) \<and> \<not> list_ex is_submit (events env w))
   \<and> length (filter is_submit (events env w)) \<le> 1"
proof -
  let ?o = "options (snd (output_guard env w))"
  have early: ?thesis
    if "\<not> list_ex is_queue_telemetry (events env w)" "\<not> list_ex is_submit (events env w)"
    using that by (simp add: precedes_none filter_none)
  show ?thesis
  proof (cases rule: run_cases [of env w])
    case (guard e')
    then show ?thesis
      by (intro early) (simp_all add: guard_none)
  next
    case (load e')
    then show ?thesis
      by (intro early) (simp_all add: guard_none load_none)
  next
    case (manager secs e')
    then show ?thesis
      by (intro early) (simp_all add: guard_none load_none)
  next
    case (queue secs e')
    then show ?thesis
      by (intro early) (simp_all add: guard_none load_none queue_none)
  next
    case (join secs effects e')
    then show ?thesis
      by (intro early) (simp_all add: guard_none load_none queue_none join_none)
  next
    case (finish secs effects)
    note none = guard_none load_none queue_none join_none
    from load_ok [OF finish(2)] have a: "apply_all env = Inr secs"
      by simp
    have qt: "list_ex is_queue_telemetry (events env w) = (\<not> telemetry_disabled (core secs))"
      using finish by (simp add: none finish_telemetry(1))
    have sb: "list_ex is_submit (events env w) \<Longrightarrow> \<not> telemetry_disabled (core secs)"
      using finish finish_telemetry(2) [of env ?o secs] by (simp add: none)
    have j: "list_ex is_join (snd (join_all env ?o effects))"
      by (simp add: join_snd)
    have p1: "precedes is_join is_queue_telemetry (events env w)"
      using finish j by (simp add: none precedes_append precedes_none)
    have p2: "precedes is_queue_telemetry is_submit (events env w)"
      using finish by (simp add: none precedes_append finish_telemetry(3))
    have n: "length (filter is_submit (events env w)) \<le> 1"
      using finish finish_telemetry(7) [of env ?o secs] by (simp add: none filter_none)
    from join_resolved [OF finish(5)]
    have c: "\<not> ignorePreview ?o \<longrightarrow> fst (preview_chain env ?o) = None"
      and t: "\<forall>t \<in> set effects. task_result env t = None"
      by blast+
    have b: "previewBuilder_build env = None" if "\<not> ignorePreview ?o"
    proof (cases "previewBuilder_build env")
      case (Some x)
      from chain_result [OF this, of ?o] c that show ?thesis by simp
    qed simp
    have tq: "task_result env t = None" if "Queue t \<in> set (events env w)" "t \<noteq> Telemetry" for t
    proof -
      have "Queue t \<notin> set (guard_events env w)"
        using guard_none(3) [of env w] by (auto simp: list_ex_iff)
      moreover have "Queue t \<notin> set (snd (load_configuration env ?o))"
        using load_none(2) [of env ?o] by (auto simp: list_ex_iff)
      moreover have "Queue t \<notin> set (snd (join_all env ?o effects))"
        using join_none(3) [of env ?o effects] by (auto simp: list_ex_iff)
      moreover have "Queue t \<notin> set (snd (finish env ?o secs))"
        using that(2) telemetry_task_events [of env ?o] by (auto simp: finish_snd)
      ultimately have "Queue t \<in> set (snd (queue_effects env ?o secs))"
        using that(1) finish by auto
      with queue_ok [OF finish(4), of t] t show ?thesis by simp
    qed
    from a qt sb p1 p2 n c b tq finish(6) show ?thesis
      by (auto simp: run_options ignorePreview_guard)
  qed
qed

theorem telemetry_only_after_success_witness:
  "list_ex is_queue_telemetry (events demo_env demo_world)
   \<and> list_ex is_submit (events demo_env demo_world)
   \<and> fst (buildStaticStandalone demo_env demo_world) = Inr ()
   \<and> previewBuilder_build demo_env = None
   \<and> precedes is_join is_queue_telemetry (events demo_env demo_world)
   \<and> precedes is_queue_telemetry is_submit (events demo_env demo_world)
   \<and> fst (buildStaticStandalone no_telemetry_env demo_world) = Inr ()
   \<and> \<not> list_ex is_queue_telemetry (events no_telemetry_env demo_world)
   \<and> \<not> list_ex is_submit (events no_telemetry_env demo_world)"
proof -
  have 1: "list_ex is_queue_telemetry (events demo_env demo_world)"
    "list_ex is_submit (events demo_env demo_world)"
    by code_simp+
  have 2: "\<not> ignorePreview (options demo_world)"
    by code_simp
  have 3: "(case apply_all no_telemetry_env of
              Inl e \<Rightarrow> True
            | Inr secs \<Rightarrow> telemetry_disabled (core secs))"
    by (simp add: no_telemetry_env_def telemetry_disabled_def)
  have 4: "fst (buildStaticStandalone no_telemetry_env demo_world) = Inr ()"
    by code_simp
  from telemetry_only_after_success [of demo_env demo_world]
    telemetry_only_after_success [of no_telemetry_env demo_world]
  show ?thesis
    using 1 2 3 4 by simp
qed

text \<open>
  C10. The claim is that for every input the orchestrator sets \<^verbatim>\<open>configType\<close> to
  \<^verbatim>\<open>PRODUCTION\<close> and replaces \<^verbatim>\<open>outputDir\<close> and \<^verbatim>\<open>configDir\<close> by their
  resolved paths. The test for the empty output directory stands between the first write
  and the other two: for an empty \<^verbatim>\<open>outputDir\<close> only \<^verbatim>\<open>configType\<close> is written,
  and both paths stay as they were given. For every other input all three are written, the
  two paths are absolute, and the first event of the run already shows the resolved output
  directory. No other field of the request is changed, whatever the request holds besides.
\<close>

theorem options_mutation:
  "options (snd (buildStaticStandalone env w)) =
     (if outputDir (options w) = [] then (options w)\<lparr>configType := Some PRODUCTION\<rparr>
      else (options w)\<lparr>configType := Some PRODUCTION,
                        outputDir := resolve (cwd env) (outputDir (options w)),
                        configDir := resolve (cwd env) (configDir (options w))\<rparr>)
   \<and> prefix ''/'' (resolve (cwd env) (outputDir (options w)))
   \<and> prefix ''/'' (resolve (cwd env) (configDir (options w)))
   \<and> (events env w = [] \<or>
        hd (events env w) = LogInfo (''=> Cleaning outputDir: '' @
          relative_path env (cwd env) (outputDir (options (snd (buildStaticStandalone env w))))))"
proof -
  have o: "options (snd (buildStaticStandalone env w)) = options (snd (output_guard env w))"
    by (simp add: buildStaticStandalone_def split: prod.splits sum.splits)
  have 1: "prefix ''/'' (resolve wd p)" for wd p
    by (simp add: resolve_def Let_def)
  have 2: "guard_events env w = [] \<and> outputDir (options w) = [] \<or>
    outputDir (options w) \<noteq> [] \<and>
    (\<exists>evs. guard_events env w = LogInfo (''=> Cleaning outputDir: '' @
          relative_path env (cwd env) (resolve (cwd env) (outputDir (options w)))) # evs)"
    by (auto simp: guard_events_def output_guard_def Let_def log_def split: sum.splits)
  have 3: "fst (output_guard env w) \<noteq> Inr u" if "outputDir (options w) = []" for u
    using that by (simp add: output_guard_def)
  have 4: "events env w = [] \<or>
        hd (events env w) = LogInfo (''=> Cleaning outputDir: '' @
          relative_path env (cwd env) (outputDir (options (snd (buildStaticStandalone env w)))))"
    using 2 3 by (auto simp: o options_guard events_split split: sum.splits)
  show ?thesis
    using 1 4 by (simp add: o options_guard)
qed

theorem options_mutation_counterexample:
  "outputDir (options (snd (buildStaticStandalone demo_env empty_world)))
     \<noteq> resolve (cwd demo_env) (outputDir (options empty_world))
   \<and> configDir (options (snd (buildStaticStandalone demo_env empty_world)))
     \<noteq> resolve (cwd demo_env) (configDir (options empty_world))"
  by code_simp

theorem options_mutation_witness:
  "options (snd (buildStaticStandalone demo_env demo_world)) =
     demo_options\<lparr>configType := Some PRODUCTION,
                  outputDir := ''/home/me/app/storybook-static'',
                  configDir := ''/home/me/app/.storybook''\<rparr>
   \<and> options (snd (buildStaticStandalone demo_env empty_world)) =
     demo_options\<lparr>configType := Some PRODUCTION, outputDir := []\<rparr>"
proof -
  have 1: "resolve (cwd demo_env) (outputDir (options demo_world))
             = ''/home/me/app/storybook-static''"
    by code_simp
  have 2: "resolve (cwd demo_env) (configDir (options demo_world)) = ''/home/me/app/.storybook''"
    by code_simp
  have 3: "options demo_world = demo_options" "options empty_world = demo_options\<lparr>outputDir := []\<rparr>"
    by (simp_all add: demo_world_def empty_world_def)
  have 4: "outputDir demo_options \<noteq> []"
    by (simp add: demo_options_def)
  from options_mutation [of demo_env demo_world] options_mutation [of demo_env empty_world]
  show ?thesis
    using 1 2 4 by (simp add: 3)
qed

end
